theory Spec2Isabelle
  imports Main
begin

section \<open>JavaScript values\<close>

text \<open>
  The service handles values typed \<open>any\<close> (whatever the document store throws) and plain
  objects (documents). An object is a finite map from property names to values; a property
  that holds \<open>undefined\<close> is present in the map with the value \<open>JUndefined\<close>.
  Numbers are modelled as integers: status codes are integers, and \<open>NaN\<close> does not occur.
\<close>

datatype jsval =
    JUndefined
  | JNull
  | JBool bool
  | JNum int
  | JStr string
  | JObj "string \<Rightarrow> jsval option"

type_synonym obj = "string \<Rightarrow> jsval option"

text \<open>JavaScript truthiness: \<open>undefined\<close>, \<open>null\<close>, \<open>false\<close>, \<open>0\<close> and \<open>""\<close> are falsy.\<close>

fun truthy :: "jsval \<Rightarrow> bool" where
  "truthy JUndefined = False"
| "truthy JNull = False"
| "truthy (JBool b) = b"
| "truthy (JNum n) = (n \<noteq> 0)"
| "truthy (JStr s) = (s \<noteq> [])"
| "truthy (JObj m) = True"

text \<open>The operator \<open>a || b\<close>.\<close>

definition js_or :: "jsval \<Rightarrow> jsval \<Rightarrow> jsval" where
  "js_or a b = (if truthy a then a else b)"

text \<open>Reading a property of an object, \<open>o.k\<close>: a missing property reads as \<open>undefined\<close>.\<close>

definition getprop :: "obj \<Rightarrow> string \<Rightarrow> jsval" where
  "getprop m k = (case m k of None \<Rightarrow> JUndefined | Some v \<Rightarrow> v)"

text \<open>
  Optional chaining, \<open>e?.k\<close>: \<open>undefined\<close> when \<open>e\<close> is \<open>undefined\<close> or \<open>null\<close>; a primitive
  has no own property named \<open>k\<close> and reads as \<open>undefined\<close> too.
\<close>

fun opt_chain :: "jsval \<Rightarrow> string \<Rightarrow> jsval" where
  "opt_chain (JObj m) k = getprop m k"
| "opt_chain v k = JUndefined"

text \<open>Number to string conversion inside a template literal.\<close>

fun string_of_nat :: "nat \<Rightarrow> string" where
  "string_of_nat n =
     (if n < 10 then [char_of (48 + n)]
      else string_of_nat (n div 10) @ [char_of (48 + n mod 10)])"

declare string_of_nat.simps [simp del]


section \<open>The document store (PouchDB) as an environment\<close>

text \<open>
  PouchDB is an external library. It is a parameter of the model: a record of functions, one
  per method the service calls. Each answers from the history of the calls made so far, so
  that any deterministic store, with any state of its own, is an instance. A method either
  rejects with a value (\<open>Inl\<close>) or resolves (\<open>Inr\<close>).

  The world threaded through the service holds that history (\<open>calls\<close>, oldest first) and the
  lines written with \<open>console.error\<close>.
\<close>

datatype Database = Database string

record AllDocsOptions =
  include_docs :: bool
  attachments :: bool
  descending :: bool

record DatabaseResponse =
  ok :: bool
  id_resp :: string
  rev_resp :: string

datatype call =
    CInfo Database
  | CPost Database obj
  | CAllDocs Database AllDocsOptions
  | CGet Database string
  | CPut Database obj
  | CRemove Database obj
  | CClose Database

record PouchDB =
  p_new :: "string \<Rightarrow> jsval + Database"
  p_info :: "call list \<Rightarrow> Database \<Rightarrow> jsval + unit"
  p_post :: "call list \<Rightarrow> Database \<Rightarrow> obj \<Rightarrow> jsval + DatabaseResponse"
  p_allDocs :: "call list \<Rightarrow> Database \<Rightarrow> AllDocsOptions \<Rightarrow> jsval + obj list"
  p_get :: "call list \<Rightarrow> Database \<Rightarrow> string \<Rightarrow> jsval + obj"
  p_put :: "call list \<Rightarrow> Database \<Rightarrow> obj \<Rightarrow> jsval + DatabaseResponse"
  p_remove :: "call list \<Rightarrow> Database \<Rightarrow> obj \<Rightarrow> jsval + DatabaseResponse"
  p_close :: "call list \<Rightarrow> Database \<Rightarrow> jsval + unit"

record world =
  calls :: "call list"
  console :: "(string \<times> jsval) list"

definition record_call :: "call \<Rightarrow> world \<Rightarrow> world" where
  "record_call c w = w\<lparr>calls := calls w @ [c]\<rparr>"

definition db_info :: "PouchDB \<Rightarrow> Database \<Rightarrow> world \<Rightarrow> (jsval + unit) \<times> world" where
  "db_info P d w = (p_info P (calls w) d, record_call (CInfo d) w)"

definition db_post ::
  "PouchDB \<Rightarrow> Database \<Rightarrow> obj \<Rightarrow> world \<Rightarrow> (jsval + DatabaseResponse) \<times> world" where
  "db_post P d doc w = (p_post P (calls w) d doc, record_call (CPost d doc) w)"

definition db_allDocs ::
  "PouchDB \<Rightarrow> Database \<Rightarrow> AllDocsOptions \<Rightarrow> world \<Rightarrow> (jsval + obj list) \<times> world" where
  "db_allDocs P d opts w = (p_allDocs P (calls w) d opts, record_call (CAllDocs d opts) w)"

definition db_get :: "PouchDB \<Rightarrow> Database \<Rightarrow> string \<Rightarrow> world \<Rightarrow> (jsval + obj) \<times> world" where
  "db_get P d k w = (p_get P (calls w) d k, record_call (CGet d k) w)"

definition db_put ::
  "PouchDB \<Rightarrow> Database \<Rightarrow> obj \<Rightarrow> world \<Rightarrow> (jsval + DatabaseResponse) \<times> world" where
  "db_put P d doc w = (p_put P (calls w) d doc, record_call (CPut d doc) w)"

definition db_remove ::
  "PouchDB \<Rightarrow> Database \<Rightarrow> obj \<Rightarrow> world \<Rightarrow> (jsval + DatabaseResponse) \<times> world" where
  "db_remove P d doc w = (p_remove P (calls w) d doc, record_call (CRemove d doc) w)"

definition db_close :: "PouchDB \<Rightarrow> Database \<Rightarrow> world \<Rightarrow> (jsval + unit) \<times> world" where
  "db_close P d w = (p_close P (calls w) d, record_call (CClose d) w)"


section \<open>The service: database.service.ts\<close>

text \<open>
  The object built by \<open>handleError\<close>. Its third field is named \<open>error\<close> in the code; it holds
  the value that was caught, unchanged (\<open>undefined\<close> when \<open>handleError\<close> gets no second
  argument).
\<close>

record DatabaseError =
  status :: jsval
  message :: string
  error :: jsval

record DatabaseService =
  db :: "Database option"
  dbUrl :: string

definition createDatabaseService :: "string \<Rightarrow> DatabaseService" where
  "createDatabaseService url = \<lparr>db = None, dbUrl = url\<rparr>"

text \<open>\<open>handleError\<close> writes to the console and returns the error object; it does not throw.\<close>

definition handleError :: "string \<Rightarrow> jsval \<Rightarrow> world \<Rightarrow> DatabaseError \<times> world" where
  "handleError msg err w =
     (\<lparr>status = js_or (opt_chain err ''status'') (JNum 500), message = msg, error = err\<rparr>,
      w\<lparr>console := console w @ [(msg, err)]\<rparr>)"

text \<open>\<open>throw this.handleError(...)\<close>: the operation rejects with the object built.\<close>

definition throw :: "DatabaseError \<times> world \<Rightarrow> (DatabaseError + 'a) \<times> world" where
  "throw ew = (Inl (fst ew), snd ew)"

text \<open>
  \<open>initialize\<close>: the handle is assigned before the liveness check; in the \<open>catch\<close> block the
  result of \<open>handleError\<close> is dropped, so the promise resolves on every path.
\<close>

definition initialize ::
  "PouchDB \<Rightarrow> DatabaseService \<Rightarrow> world \<Rightarrow> (DatabaseError + unit) \<times> DatabaseService \<times> world" where
  "initialize P s w =
     (case p_new P (dbUrl s) of
        Inl e \<Rightarrow> (Inr (), s, snd (handleError ''Failed to initialize database'' e w))
      | Inr d \<Rightarrow>
          (case db_info P d w of
             (Inl e, w1) \<Rightarrow>
               (Inr (), s\<lparr>db := Some d\<rparr>, snd (handleError ''Failed to initialize database'' e w1))
           | (Inr u, w1) \<Rightarrow> (Inr (), s\<lparr>db := Some d\<rparr>, w1)))"

text \<open>
  \<open>createDocument\<close>; \<open>now\<close> is what \<open>new Date().toISOString()\<close> yields if it is evaluated.
\<close>

definition createDocument ::
  "PouchDB \<Rightarrow> string \<Rightarrow> DatabaseService \<Rightarrow> obj \<Rightarrow> world
     \<Rightarrow> (DatabaseError + DatabaseResponse) \<times> world" where
  "createDocument P now s document w =
     (case db s of
        None \<Rightarrow> throw (handleError ''Database not initialized'' JUndefined w)
      | Some d \<Rightarrow>
          (case db_post P d
                  (document(''createdAt'' \<mapsto> js_or (getprop document ''createdAt'') (JStr now))) w of
             (Inl e, w1) \<Rightarrow> throw (handleError ''Failed to create document'' e w1)
           | (Inr response, w1) \<Rightarrow>
               (Inr \<lparr>ok = True, id_resp = id_resp response, rev_resp = rev_resp response\<rparr>, w1)))"

definition getAllDocuments ::
  "PouchDB \<Rightarrow> DatabaseService \<Rightarrow> world \<Rightarrow> (DatabaseError + jsval list) \<times> world" where
  "getAllDocuments P s w =
     (case db s of
        None \<Rightarrow> throw (handleError ''Database not initialized'' JUndefined w)
      | Some d \<Rightarrow>
          (case db_allDocs P d \<lparr>include_docs = True, attachments = True, descending = True\<rparr> w of
             (Inl e, w1) \<Rightarrow> throw (handleError ''Failed to fetch documents'' e w1)
           | (Inr rows, w1) \<Rightarrow> (Inr (map (\<lambda>row. getprop row ''doc'') rows), w1)))"

definition getDocumentById ::
  "PouchDB \<Rightarrow> DatabaseService \<Rightarrow> string \<Rightarrow> world \<Rightarrow> (DatabaseError + obj) \<times> world" where
  "getDocumentById P s id' w =
     (case db s of
        None \<Rightarrow> throw (handleError ''Database not initialized'' JUndefined w)
      | Some d \<Rightarrow>
          (case db_get P d id' w of
             (Inl e, w1) \<Rightarrow> throw (handleError (''Failed to fetch document with id '' @ id') e w1)
           | (Inr doc, w1) \<Rightarrow> (Inr doc, w1)))"

text \<open>
  \<open>updateDocument\<close>: the object written is \<open>{...existingDoc, ...document, _id: id, _rev:
  existingDoc._rev}\<close>; later entries of an object literal override earlier ones.
\<close>

definition updateDocument ::
  "PouchDB \<Rightarrow> DatabaseService \<Rightarrow> string \<Rightarrow> obj \<Rightarrow> world
     \<Rightarrow> (DatabaseError + DatabaseResponse) \<times> world" where
  "updateDocument P s id' document w =
     (case db s of
        None \<Rightarrow> throw (handleError ''Database not initialized'' JUndefined w)
      | Some d \<Rightarrow>
          (case db_get P d id' w of
             (Inl e, w1) \<Rightarrow> throw (handleError (''Failed to update document with id '' @ id') e w1)
           | (Inr existingDoc, w1) \<Rightarrow>
               (case db_put P d
                       ((existingDoc ++ document)
                          (''_id'' \<mapsto> JStr id', ''_rev'' \<mapsto> getprop existingDoc ''_rev'')) w1 of
                  (Inl e, w2) \<Rightarrow>
                    throw (handleError (''Failed to update document with id '' @ id') e w2)
                | (Inr response, w2) \<Rightarrow>
                    (Inr \<lparr>ok = True, id_resp = id_resp response, rev_resp = rev_resp response\<rparr>,
                     w2))))"

definition deleteDocument ::
  "PouchDB \<Rightarrow> DatabaseService \<Rightarrow> string \<Rightarrow> world \<Rightarrow> (DatabaseError + DatabaseResponse) \<times> world" where
  "deleteDocument P s id' w =
     (case db s of
        None \<Rightarrow> throw (handleError ''Database not initialized'' JUndefined w)
      | Some d \<Rightarrow>
          (case db_get P d id' w of
             (Inl e, w1) \<Rightarrow> throw (handleError (''Failed to delete document with id '' @ id') e w1)
           | (Inr doc, w1) \<Rightarrow>
               (case db_remove P d doc w1 of
                  (Inl e, w2) \<Rightarrow>
                    throw (handleError (''Failed to delete document with id '' @ id') e w2)
                | (Inr response, w2) \<Rightarrow>
                    (Inr \<lparr>ok = True, id_resp = id_resp response, rev_resp = rev_resp response\<rparr>,
                     w2))))"

text \<open>
  \<open>close\<close>: a rejection of \<open>db.close()\<close> is not caught, and then the handle is kept.
\<close>

definition close ::
  "PouchDB \<Rightarrow> DatabaseService \<Rightarrow> world \<Rightarrow> (jsval + unit) \<times> DatabaseService \<times> world" where
  "close P s w =
     (case db s of
        None \<Rightarrow> (Inr (), s, w)
      | Some d \<Rightarrow>
          (case db_close P d w of
             (Inl e, w1) \<Rightarrow> (Inl e, s, w1)
           | (Inr u, w1) \<Rightarrow> (Inr (), s\<lparr>db := None\<rparr>, w1)))"


section \<open>The component: DatabaseManager.vue\<close>

datatype StatusType = Info | Success | Error

record Status =
  message :: string
  type :: StatusType

record NewDocument =
  title :: string
  content :: string

text \<open>The component's data, with its \<open>dbUrl\<close> prop.\<close>

record DatabaseManager =
  dbUrl :: string
  documents :: "jsval list"
  newDocument :: NewDocument
  status :: Status
  isLoading :: bool
  databaseService :: "DatabaseService option"

text \<open>The result of \<open>data()\<close> for a component mounted with the given prop.\<close>

definition data :: "string \<Rightarrow> DatabaseManager" where
  "data url =
     \<lparr>dbUrl = url, documents = [], newDocument = \<lparr>title = [], content = []\<rparr>,
      status = \<lparr>message = [], type = Info\<rparr>, isLoading = False, databaseService = None\<rparr>"

definition updateStatus :: "string \<Rightarrow> StatusType \<Rightarrow> DatabaseManager \<Rightarrow> DatabaseManager" where
  "updateStatus m t c = c\<lparr>status := \<lparr>message = m, type = t\<rparr>\<rparr>"

definition fetchDocuments :: "PouchDB \<Rightarrow> DatabaseManager \<Rightarrow> world \<Rightarrow> DatabaseManager \<times> world" where
  "fetchDocuments P c w =
     (case databaseService c of
        None \<Rightarrow> (c, w)
      | Some svc \<Rightarrow>
          (let c1 = c\<lparr>isLoading := True\<rparr> in
           case getAllDocuments P svc w of
             (Inr docs, w1) \<Rightarrow>
               (let c2 = c1\<lparr>documents := docs\<rparr>;
                    c3 = updateStatus
                           (string_of_nat (length (documents c2)) @ '' documents loaded'')
                           Success c2
                in (c3\<lparr>isLoading := False\<rparr>, w1))
           | (Inl err, w1) \<Rightarrow>
               ((updateStatus (DatabaseError.message err) Error c1)\<lparr>isLoading := False\<rparr>, w1)))"

text \<open>
  \<open>addDocument\<close>; \<open>now\<close> is the component's own \<open>new Date().toISOString()\<close>, \<open>now'\<close> the one
  the service would evaluate.
\<close>

definition addDocument ::
  "PouchDB \<Rightarrow> string \<Rightarrow> string \<Rightarrow> DatabaseManager \<Rightarrow> world \<Rightarrow> DatabaseManager \<times> world" where
  "addDocument P now now' c w =
     (if title (newDocument c) = [] \<or> content (newDocument c) = []
      then (updateStatus ''Title and content are required'' Error c, w)
      else
        (case databaseService c of
           None \<Rightarrow> (c, w)
         | Some svc \<Rightarrow>
             (let c1 = c\<lparr>isLoading := True\<rparr> in
              case createDocument P now' svc
                     [''title'' \<mapsto> JStr (title (newDocument c1)),
                      ''content'' \<mapsto> JStr (content (newDocument c1)),
                      ''createdAt'' \<mapsto> JStr now] w of
                (Inr r, w1) \<Rightarrow>
                  (let c2 = updateStatus ''Document added successfully'' Success c1;
                       c3 = c2\<lparr>newDocument := (newDocument c2)\<lparr>title := []\<rparr>\<rparr>;
                       c4 = c3\<lparr>newDocument := (newDocument c3)\<lparr>content := []\<rparr>\<rparr>;
                       (c5, w2) = fetchDocuments P c4 w1
                   in (c5\<lparr>isLoading := False\<rparr>, w2))
              | (Inl err, w1) \<Rightarrow>
                  ((updateStatus (DatabaseError.message err) Error c1)\<lparr>isLoading := False\<rparr>,
                   w1))))"

text \<open>The component's \<open>deleteDocument\<close> method (the service has one of the same name).\<close>

definition deleteDocument_component ::
  "PouchDB \<Rightarrow> string \<Rightarrow> DatabaseManager \<Rightarrow> world \<Rightarrow> DatabaseManager \<times> world" where
  "deleteDocument_component P id' c w =
     (case databaseService c of
        None \<Rightarrow> (c, w)
      | Some svc \<Rightarrow>
          (let c1 = c\<lparr>isLoading := True\<rparr> in
           case deleteDocument P svc id' w of
             (Inr r, w1) \<Rightarrow>
               (let c2 = updateStatus ''Document deleted successfully'' Success c1;
                    (c3, w2) = fetchDocuments P c2 w1
                in (c3\<lparr>isLoading := False\<rparr>, w2))
           | (Inl err, w1) \<Rightarrow>
               ((updateStatus (DatabaseError.message err) Error c1)\<lparr>isLoading := False\<rparr>, w1)))"

definition initializeDatabase ::
  "PouchDB \<Rightarrow> DatabaseManager \<Rightarrow> world \<Rightarrow> DatabaseManager \<times> world" where
  "initializeDatabase P c w =
     (let svc = createDatabaseService (dbUrl c);
          c1 = c\<lparr>databaseService := Some svc\<rparr>
      in case initialize P svc w of
           (Inr u, svc', w1) \<Rightarrow>
             (let c2 = c1\<lparr>databaseService := Some svc'\<rparr>;
                  c3 = updateStatus ''Connected to database'' Success c2
              in fetchDocuments P c3 w1)
         | (Inl err, svc', w1) \<Rightarrow>
             (updateStatus (DatabaseError.message err) Error (c1\<lparr>databaseService := Some svc'\<rparr>),
              w1))"

definition mounted :: "PouchDB \<Rightarrow> DatabaseManager \<Rightarrow> world \<Rightarrow> DatabaseManager \<times> world" where
  "mounted P c w = initializeDatabase P c w"

definition unmounted ::
  "PouchDB \<Rightarrow> DatabaseManager \<Rightarrow> world \<Rightarrow> (jsval + unit) \<times> DatabaseManager \<times> world" where
  "unmounted P c w =
     (case databaseService c of
        None \<Rightarrow> (Inr (), c, w)
      | Some svc \<Rightarrow>
          (case close P svc w of
             (r, svc', w1) \<Rightarrow> (r, c\<lparr>databaseService := Some svc'\<rparr>, w1)))"


section \<open>Reading the call history\<close>

text \<open>
  The value of property \<open>k\<close> in the document a call hands to the store for writing
  (\<open>db.post\<close>, \<open>db.put\<close>); \<open>None\<close> for a call that writes no document.
\<close>

definition written_field :: "string \<Rightarrow> call \<Rightarrow> jsval option" where
  "written_field k c =
     (case c of
        CPost d doc \<Rightarrow> Some (getprop doc k)
      | CPut d doc \<Rightarrow> Some (getprop doc k)
      | _ \<Rightarrow> None)"


section \<open>Sample stores and inputs\<close>

text \<open>
  Two instances of the store parameter and a few inputs, on which the theorems below are
  evaluated: a reachable store that holds one document under the id \<open>doc1\<close> and answers
  404 for any other id, and a store whose every request fails without a status.
\<close>

definition sample_url :: string where
  "sample_url = ''http://localhost:5984/infradon''"

definition sample_now :: string where
  "sample_now = ''2025-05-05T12:00:00.000Z''"

definition sample_doc :: obj where
  "sample_doc =
     [''_id'' \<mapsto> JStr ''doc1'', ''_rev'' \<mapsto> JStr ''1-a'', ''title'' \<mapsto> JStr ''A'',
      ''content'' \<mapsto> JStr ''B'', ''createdAt'' \<mapsto> JStr ''2024-01-01T00:00:00.000Z'']"

definition not_found :: jsval where
  "not_found = JObj [''status'' \<mapsto> JNum 404, ''name'' \<mapsto> JStr ''not_found'']"

definition fetch_failed :: jsval where
  "fetch_failed =
     JObj [''name'' \<mapsto> JStr ''TypeError'', ''message'' \<mapsto> JStr ''Failed to fetch'']"

definition sample_store :: PouchDB where
  "sample_store =
     \<lparr>p_new = (\<lambda>url. Inr (Database url)),
      p_info = (\<lambda>h d. Inr ()),
      p_post = (\<lambda>h d doc. Inr \<lparr>ok = True, id_resp = ''doc2'', rev_resp = ''1-b''\<rparr>),
      p_allDocs = (\<lambda>h d opts. Inr [[''id'' \<mapsto> JStr ''doc1'', ''doc'' \<mapsto> JObj sample_doc]]),
      p_get = (\<lambda>h d k. if k = ''doc1'' then Inr sample_doc else Inl not_found),
      p_put = (\<lambda>h d doc. Inr \<lparr>ok = True, id_resp = ''doc1'', rev_resp = ''2-c''\<rparr>),
      p_remove = (\<lambda>h d doc. Inr \<lparr>ok = True, id_resp = ''doc1'', rev_resp = ''2-d''\<rparr>),
      p_close = (\<lambda>h d. Inr ())\<rparr>"

definition unreachable_store :: PouchDB where
  "unreachable_store =
     \<lparr>p_new = (\<lambda>url. Inr (Database url)),
      p_info = (\<lambda>h d. Inl fetch_failed),
      p_post = (\<lambda>h d doc. Inl fetch_failed),
      p_allDocs = (\<lambda>h d opts. Inl fetch_failed),
      p_get = (\<lambda>h d k. Inl fetch_failed),
      p_put = (\<lambda>h d doc. Inl fetch_failed),
      p_remove = (\<lambda>h d doc. Inl fetch_failed),
      p_close = (\<lambda>h d. Inr ())\<rparr>"

definition fresh_world :: world where
  "fresh_world = \<lparr>calls = [], console = []\<rparr>"

definition connected :: DatabaseService where
  "connected = \<lparr>db = Some (Database sample_url), DatabaseService.dbUrl = sample_url\<rparr>"

definition title_patch :: obj where
  "title_patch =
     [''title'' \<mapsto> JStr ''A2'', ''_id'' \<mapsto> JStr ''other'', ''_rev'' \<mapsto> JStr ''9-z'']"

definition createdAt_patch :: obj where
  "createdAt_patch = [''createdAt'' \<mapsto> JStr ''1999-12-31T00:00:00.000Z'']"

definition fields_without_createdAt :: obj where
  "fields_without_createdAt = [''title'' \<mapsto> JStr ''A'', ''content'' \<mapsto> JStr ''B'']"

definition fields_with_createdAt :: obj where
  "fields_with_createdAt =
     [''title'' \<mapsto> JStr ''A'', ''content'' \<mapsto> JStr ''B'',
      ''createdAt'' \<mapsto> JStr ''2020-02-02T00:00:00.000Z'']"

definition fields_with_empty_createdAt :: obj where
  "fields_with_empty_createdAt =
     [''title'' \<mapsto> JStr ''A'', ''content'' \<mapsto> JStr ''B'', ''createdAt'' \<mapsto> JStr []]"

definition loaded_manager :: DatabaseManager where
  "loaded_manager =
     (data sample_url)
       \<lparr>documents := [JObj sample_doc],
        newDocument := \<lparr>title = ''A'', content = ''B''\<rparr>,
        databaseService := Some connected\<rparr>"

definition loading_manager :: DatabaseManager where
  "loading_manager = loaded_manager\<lparr>isLoading := True\<rparr>"

definition empty_title_form :: DatabaseManager where
  "empty_title_form = loaded_manager\<lparr>newDocument := \<lparr>title = [], content = ''B''\<rparr>\<rparr>"

definition filled_form :: DatabaseManager where
  "filled_form = (data sample_url)\<lparr>newDocument := \<lparr>title = ''A'', content = ''B''\<rparr>\<rparr>"


section \<open>Auxiliary facts\<close>

lemmas store_calls = db_info_def db_post_def db_allDocs_def db_get_def db_put_def db_remove_def
  db_close_def record_call_def

lemma written_field_simps [simp]:
  "written_field k (CPost d doc) = Some (getprop doc k)"
  "written_field k (CPut d doc) = Some (getprop doc k)"
  "written_field k (CGet d i) = None"
  "written_field k (CRemove d doc) = None"
  "written_field k (CInfo d) = None"
  "written_field k (CAllDocs d opts) = None"
  "written_field k (CClose d) = None"
  by (simp_all add: written_field_def)

lemma connected_db: "db connected = Some (Database sample_url)"
  by (simp add: connected_def)

lemma sample_store_get_doc1:
  "p_get sample_store (calls fresh_world) (Database sample_url) ''doc1'' = Inr sample_doc"
  by (simp add: sample_store_def)

lemma handleError_no_cause:
  "handleError msg JUndefined w =
     (\<lparr>DatabaseError.status = JNum 500, DatabaseError.message = msg, error = JUndefined\<rparr>,
      w\<lparr>console := console w @ [(msg, JUndefined)]\<rparr>)"
  by (simp add: handleError_def js_or_def)

lemma initialize_never_rejects: "fst (initialize P s w) = Inr ()"
  by (simp add: initialize_def split: sum.split prod.split)

lemma close_resolved_db:
  assumes "close P s0 w0 = (Inr (), s, w1)"
  shows "db s = None"
  using assms by (auto simp: close_def split: option.splits sum.splits prod.splits)

lemma createDocument_calls:
  assumes "db s = Some d"
  shows "calls (snd (createDocument P now s document w))
           = calls w @ [CPost d (document(''createdAt'' \<mapsto>
                                   js_or (getprop document ''createdAt'') (JStr now)))]"
  using assms
  by (simp add: createDocument_def store_calls throw_def handleError_def split: sum.split)

lemma updateDocument_calls:
  assumes "db s = Some d" and "p_get P (calls w) d id' = Inr existingDoc"
  shows "calls (snd (updateDocument P s id' document w))
           = calls w @ [CGet d id',
                        CPut d ((existingDoc ++ document)
                                  (''_id'' \<mapsto> JStr id',
                                   ''_rev'' \<mapsto> getprop existingDoc ''_rev''))]"
  using assms
  by (simp add: updateDocument_def store_calls throw_def handleError_def split: sum.split)

lemma fetchDocuments_null: "databaseService c = None \<Longrightarrow> fetchDocuments P c w = (c, w)"
  by (simp add: fetchDocuments_def)

lemma fetchDocuments_isLoading:
  "databaseService c = Some svc \<Longrightarrow> \<not> isLoading (fst (fetchDocuments P c w))"
  by (simp add: fetchDocuments_def updateStatus_def Let_def split: prod.split sum.split)

lemma addDocument_isLoading:
  "databaseService c = Some svc \<Longrightarrow> title (newDocument c) \<noteq> []
     \<Longrightarrow> content (newDocument c) \<noteq> []
     \<Longrightarrow> \<not> isLoading (fst (addDocument P now now' c w))"
  by (simp add: addDocument_def updateStatus_def Let_def split: prod.split sum.split)

lemma deleteDocument_component_isLoading:
  "databaseService c = Some svc \<Longrightarrow> \<not> isLoading (fst (deleteDocument_component P id' c w))"
  by (simp add: deleteDocument_component_def updateStatus_def Let_def
        split: prod.split sum.split)


section \<open>The store access layer\<close>

subsection \<open>initialize\<close>

text \<open>
  Claim C1 says that \<open>initialize\<close> rejects with a ConnectionFailed error (status 500 when the
  store gives none) whenever the liveness check fails, and does not resolve. The code builds
  that error with \<open>handleError\<close> but does not throw it: against a store whose \<open>info\<close> request
  fails, \<open>initialize\<close> resolves, the failure is only written to the console, and the handle
  stays assigned.
\<close>

theorem initialize_unreachable_resolves:
  "initialize unreachable_store (createDatabaseService sample_url) fresh_world =
     (Inr (),
      \<lparr>db = Some (Database sample_url), DatabaseService.dbUrl = sample_url\<rparr>,
      \<lparr>calls = [CInfo (Database sample_url)],
       console = [(''Failed to initialize database'', fetch_failed)]\<rparr>)"
  by (simp add: initialize_def createDatabaseService_def handleError_def store_calls
        unreachable_store_def fresh_world_def)

subsection \<open>updateDocument\<close>

text \<open>
  Claim C2: on a connected service, when the read of the current document succeeds,
  \<open>updateDocument id partial\<close> makes exactly two store calls, the read of \<open>id\<close> and then a
  write. The document written has \<open>_id\<close> equal to the given id and \<open>_rev\<close> equal to the
  revision of the document just read, whatever the partial fields say for these two; every
  other property has the supplied value when the partial fields have one and the value of
  the document read otherwise.
\<close>

theorem updateDocument_read_then_write_merge:
  assumes "db s = Some d" and "p_get P (calls w) d id' = Inr existingDoc"
  shows "\<exists>written.
           calls (snd (updateDocument P s id' document w))
             = calls w @ [CGet d id', CPut d written]
         \<and> written ''_id'' = Some (JStr id')
         \<and> written ''_rev'' = Some (getprop existingDoc ''_rev'')
         \<and> (\<forall>k. k \<noteq> ''_id'' \<and> k \<noteq> ''_rev'' \<longrightarrow>
                written k = (case document k of Some v \<Rightarrow> Some v | None \<Rightarrow> existingDoc k))"
proof -
  let ?written = "(existingDoc ++ document)
                    (''_id'' \<mapsto> JStr id', ''_rev'' \<mapsto> getprop existingDoc ''_rev'')"
  have trace: "calls (snd (updateDocument P s id' document w))
                 = calls w @ [CGet d id', CPut d ?written]"
    by (rule updateDocument_calls [OF assms])
  have merge: "\<forall>k. k \<noteq> ''_id'' \<and> k \<noteq> ''_rev'' \<longrightarrow>
                 ?written k = (case document k of Some v \<Rightarrow> Some v | None \<Rightarrow> existingDoc k)"
    by (simp add: map_add_def)
  from trace merge show ?thesis
    by (intro exI [of _ ?written]) simp
qed

theorem updateDocument_read_then_write_merge_witness:
  "\<exists>written.
     calls (snd (updateDocument sample_store connected ''doc1'' title_patch fresh_world))
       = [CGet (Database sample_url) ''doc1'', CPut (Database sample_url) written]
   \<and> written ''_id'' = Some (JStr ''doc1'')
   \<and> written ''_rev'' = Some (JStr ''1-a'')
   \<and> written ''title'' = Some (JStr ''A2'')
   \<and> written ''content'' = Some (JStr ''B'')"
proof -
  from updateDocument_read_then_write_merge
         [OF connected_db sample_store_get_doc1, of title_patch]
  obtain written where
    t: "calls (snd (updateDocument sample_store connected ''doc1'' title_patch fresh_world))
          = calls fresh_world
              @ [CGet (Database sample_url) ''doc1'', CPut (Database sample_url) written]"
    and i: "written ''_id'' = Some (JStr ''doc1'')"
    and r: "written ''_rev'' = Some (getprop sample_doc ''_rev'')"
    and m: "\<forall>k. k \<noteq> ''_id'' \<and> k \<noteq> ''_rev'' \<longrightarrow>
              written k = (case title_patch k of Some v \<Rightarrow> Some v | None \<Rightarrow> sample_doc k)"
    by blast
  from m have "written ''title'' = Some (JStr ''A2'')"
    by (simp add: title_patch_def)
  moreover from m have "written ''content'' = Some (JStr ''B'')"
    by (simp add: title_patch_def sample_doc_def)
  moreover from r have "written ''_rev'' = Some (JStr ''1-a'')"
    by (simp add: sample_doc_def getprop_def)
  ultimately show ?thesis
    using t i by (intro exI [of _ written]) (simp add: fresh_world_def)
qed

subsection \<open>Operations on a service that is not connected\<close>

text \<open>
  Claim C3: on a service that was just constructed (\<open>initialize\<close> not called yet), or that
  results from a \<open>close\<close> that resolved, each of \<open>createDocument\<close>, \<open>getAllDocuments\<close>,
  \<open>getDocumentById\<close>, \<open>updateDocument\<close> and \<open>deleteDocument\<close> rejects with the error object
  of status 500, message \<open>Database not initialized\<close> and no underlying error, and leaves the
  history of store calls as it was.
\<close>

theorem not_connected_rejects_without_store_call:
  assumes "s = createDatabaseService url \<or> (\<exists>s0 w0 w1. close P s0 w0 = (Inr (), s, w1))"
  shows "let notInitialized =
               \<lparr>DatabaseError.status = JNum 500,
                DatabaseError.message = ''Database not initialized'',
                error = JUndefined\<rparr>
         in fst (createDocument P now s document w) = Inl notInitialized
          \<and> calls (snd (createDocument P now s document w)) = calls w
          \<and> fst (getAllDocuments P s w) = Inl notInitialized
          \<and> calls (snd (getAllDocuments P s w)) = calls w
          \<and> fst (getDocumentById P s id' w) = Inl notInitialized
          \<and> calls (snd (getDocumentById P s id' w)) = calls w
          \<and> fst (updateDocument P s id' document w) = Inl notInitialized
          \<and> calls (snd (updateDocument P s id' document w)) = calls w
          \<and> fst (deleteDocument P s id' w) = Inl notInitialized
          \<and> calls (snd (deleteDocument P s id' w)) = calls w"
proof -
  from assms have n: "db s = None"
    by (auto simp: createDatabaseService_def dest: close_resolved_db)
  show ?thesis
    by (simp add: n createDocument_def getAllDocuments_def getDocumentById_def
          updateDocument_def deleteDocument_def throw_def handleError_no_cause)
qed

theorem not_connected_rejects_without_store_call_witness:
  "fst (createDocument sample_store sample_now (createDatabaseService sample_url)
          fields_without_createdAt fresh_world)
     = Inl \<lparr>DatabaseError.status = JNum 500,
            DatabaseError.message = ''Database not initialized'',
            error = JUndefined\<rparr>
   \<and> calls (snd (deleteDocument sample_store (createDatabaseService sample_url) ''doc1''
                   fresh_world)) = []
   \<and> fst (getAllDocuments sample_store (fst (snd (close sample_store connected fresh_world)))
            fresh_world)
     = Inl \<lparr>DatabaseError.status = JNum 500,
            DatabaseError.message = ''Database not initialized'',
            error = JUndefined\<rparr>"
proof -
  have a: "createDatabaseService sample_url = createDatabaseService sample_url
             \<or> (\<exists>s0 w0 w1. close sample_store s0 w0
                   = (Inr (), createDatabaseService sample_url, w1))"
    by simp
  have "close sample_store connected fresh_world
          = (Inr (), fst (snd (close sample_store connected fresh_world)),
             snd (snd (close sample_store connected fresh_world)))"
    by (simp add: close_def connected_def sample_store_def store_calls)
  then have b: "fst (snd (close sample_store connected fresh_world))
                  = createDatabaseService sample_url
             \<or> (\<exists>s0 w0 w1. close sample_store s0 w0
                   = (Inr (), fst (snd (close sample_store connected fresh_world)), w1))"
    by blast
  show ?thesis
    using not_connected_rejects_without_store_call
            [OF a, of sample_now fields_without_createdAt fresh_world "''doc1''"]
          not_connected_rejects_without_store_call
            [OF b, of sample_now fields_without_createdAt fresh_world "''doc1''"]
    by (simp add: fresh_world_def Let_def)
qed

subsection \<open>createdAt under updateDocument\<close>

text \<open>
  An update whose partial fields name \<open>createdAt\<close> writes that value over the stored one:
  the stored document was created in 2024, the document written says 1999.
\<close>

theorem updateDocument_overwrites_createdAt:
  "p_get sample_store (calls fresh_world) (Database sample_url) ''doc1'' = Inr sample_doc
   \<and> getprop sample_doc ''createdAt'' = JStr ''2024-01-01T00:00:00.000Z''
   \<and> map (written_field ''createdAt'')
         (calls (snd (updateDocument sample_store connected ''doc1'' createdAt_patch fresh_world)))
       = [None, Some (JStr ''1999-12-31T00:00:00.000Z'')]
   \<and> JStr ''1999-12-31T00:00:00.000Z'' \<noteq> getprop sample_doc ''createdAt''"
proof -
  have v: "getprop sample_doc ''createdAt'' = JStr ''2024-01-01T00:00:00.000Z''"
    by (simp add: getprop_def sample_doc_def)
  have "map (written_field ''createdAt'')
         (calls (snd (updateDocument sample_store connected ''doc1'' createdAt_patch fresh_world)))
       = [None, Some (JStr ''1999-12-31T00:00:00.000Z'')]"
    unfolding updateDocument_calls [OF connected_db sample_store_get_doc1]
    by (simp add: fresh_world_def getprop_def createdAt_patch_def)
  with sample_store_get_doc1 v show ?thesis by simp
qed

text \<open>
  Claim C4, amended: on a connected service, when the read succeeds and the partial fields
  have no \<open>createdAt\<close> property, the document that \<open>updateDocument\<close> writes carries the
  \<open>createdAt\<close> of the document just read. (The two new calls are the read, which writes
  nothing, and the write.)
\<close>

theorem updateDocument_keeps_createdAt_unless_supplied:
  assumes "db s = Some d" and "p_get P (calls w) d id' = Inr existingDoc"
    and "document ''createdAt'' = None"
  shows "map (written_field ''createdAt'') (calls (snd (updateDocument P s id' document w)))
           = map (written_field ''createdAt'') (calls w)
               @ [None, Some (getprop existingDoc ''createdAt'')]"
  using assms(3)
  by (simp add: updateDocument_calls [OF assms(1,2)] getprop_def map_add_def)

theorem updateDocument_keeps_createdAt_unless_supplied_witness:
  "map (written_field ''createdAt'')
     (calls (snd (updateDocument sample_store connected ''doc1'' title_patch fresh_world)))
     = [None, Some (JStr ''2024-01-01T00:00:00.000Z'')]"
proof -
  have n: "title_patch ''createdAt'' = None"
    by (simp add: title_patch_def)
  show ?thesis
    using updateDocument_keeps_createdAt_unless_supplied
            [where document = title_patch, OF connected_db sample_store_get_doc1 n]
    by (simp add: fresh_world_def getprop_def sample_doc_def)
qed

subsection \<open>deleteDocument\<close>

text \<open>
  Claim C5: on a connected service, \<open>deleteDocument id\<close> first reads the document; when the
  read succeeds it then calls \<open>remove\<close> with the very document read (which carries its id and
  current revision). When the read fails, no \<open>remove\<close> is attempted and the operation rejects
  with the message \<open>Failed to delete document with id <id>\<close>, the read's error as underlying
  error, and the read error's status (404 for a missing document) when it has a truthy one,
  500 otherwise.
\<close>

theorem deleteDocument_read_then_remove:
  assumes "db s = Some d"
  shows "(\<forall>doc. p_get P (calls w) d id' = Inr doc \<longrightarrow>
            calls (snd (deleteDocument P s id' w)) = calls w @ [CGet d id', CRemove d doc])
       \<and> (\<forall>e. p_get P (calls w) d id' = Inl e \<longrightarrow>
            calls (snd (deleteDocument P s id' w)) = calls w @ [CGet d id']
          \<and> (\<exists>err. fst (deleteDocument P s id' w) = Inl err
                \<and> DatabaseError.message err = ''Failed to delete document with id '' @ id'
                \<and> error err = e
                \<and> (truthy (opt_chain e ''status'') \<longrightarrow>
                      DatabaseError.status err = opt_chain e ''status'')
                \<and> (\<not> truthy (opt_chain e ''status'') \<longrightarrow>
                      DatabaseError.status err = JNum 500)))"
  using assms
  by (simp add: deleteDocument_def store_calls throw_def handleError_def js_or_def
        split: sum.split)

theorem deleteDocument_read_then_remove_witness:
  "calls (snd (deleteDocument sample_store connected ''doc1'' fresh_world))
     = [CGet (Database sample_url) ''doc1'', CRemove (Database sample_url) sample_doc]
   \<and> calls (snd (deleteDocument sample_store connected ''nope'' fresh_world))
     = [CGet (Database sample_url) ''nope'']
   \<and> (\<exists>err. fst (deleteDocument sample_store connected ''nope'' fresh_world) = Inl err
         \<and> DatabaseError.message err = ''Failed to delete document with id nope''
         \<and> error err = not_found
         \<and> DatabaseError.status err = JNum 404)"
proof -
  have m: "p_get sample_store (calls fresh_world) (Database sample_url) ''nope'' = Inl not_found"
    by (simp add: sample_store_def)
  have t: "truthy (opt_chain not_found ''status'')"
    and v: "opt_chain not_found ''status'' = JNum 404"
    by (simp_all add: not_found_def getprop_def)
  from deleteDocument_read_then_remove [OF connected_db, of sample_store fresh_world "''doc1''"]
    sample_store_get_doc1
  have 1: "calls (snd (deleteDocument sample_store connected ''doc1'' fresh_world))
             = [CGet (Database sample_url) ''doc1'', CRemove (Database sample_url) sample_doc]"
    by (simp add: fresh_world_def)
  from deleteDocument_read_then_remove [OF connected_db, of sample_store fresh_world "''nope''"]
    m t v
  have 2: "calls (snd (deleteDocument sample_store connected ''nope'' fresh_world))
             = [CGet (Database sample_url) ''nope'']
         \<and> (\<exists>err. fst (deleteDocument sample_store connected ''nope'' fresh_world) = Inl err
               \<and> DatabaseError.message err = ''Failed to delete document with id nope''
               \<and> error err = not_found
               \<and> DatabaseError.status err = JNum 404)"
    by (simp add: fresh_world_def)
  from 1 2 show ?thesis by simp
qed

subsection \<open>createDocument\<close>

text \<open>
  A \<open>createdAt\<close> that is supplied but falsy is not stored as given: with the empty string,
  the document posted carries the current time.
\<close>

theorem createDocument_replaces_empty_createdAt:
  "fields_with_empty_createdAt ''createdAt'' = Some (JStr [])
   \<and> map (written_field ''createdAt'')
         (calls (snd (createDocument sample_store sample_now connected
                        fields_with_empty_createdAt fresh_world)))
       = [Some (JStr sample_now)]
   \<and> JStr sample_now \<noteq> JStr []"
proof -
  have "map (written_field ''createdAt'')
         (calls (snd (createDocument sample_store sample_now connected
                        fields_with_empty_createdAt fresh_world)))
       = [Some (JStr sample_now)]"
    unfolding createDocument_calls [OF connected_db]
    by (simp add: fresh_world_def getprop_def fields_with_empty_createdAt_def js_or_def)
  then show ?thesis
    by (simp add: fields_with_empty_createdAt_def sample_now_def)
qed

text \<open>
  Claim C6, amended: on a connected service, \<open>createDocument\<close> makes one store call, a
  \<open>post\<close>. When the fields have no \<open>createdAt\<close> or a falsy one (such as the empty string),
  the document posted has \<open>createdAt\<close> set to the current time's \<open>toISOString()\<close>; when they
  have a truthy one, it is posted as given; every other property is posted as given. When
  the store accepts the document, the result is \<open>{ok: true, id, rev}\<close> with the id and
  revision of the store's response.
\<close>

theorem createDocument_defaults_createdAt:
  assumes "db s = Some d"
  shows "\<exists>posted.
           calls (snd (createDocument P now s document w)) = calls w @ [CPost d posted]
         \<and> (\<not> truthy (getprop document ''createdAt'') \<longrightarrow>
               posted ''createdAt'' = Some (JStr now))
         \<and> (truthy (getprop document ''createdAt'') \<longrightarrow>
               posted ''createdAt'' = document ''createdAt'')
         \<and> (\<forall>k. k \<noteq> ''createdAt'' \<longrightarrow> posted k = document k)
         \<and> (\<forall>response. p_post P (calls w) d posted = Inr response \<longrightarrow>
               fst (createDocument P now s document w)
                 = Inr \<lparr>ok = True, id_resp = id_resp response, rev_resp = rev_resp response\<rparr>)"
proof -
  let ?posted = "document(''createdAt'' \<mapsto> js_or (getprop document ''createdAt'') (JStr now))"
  have trace: "calls (snd (createDocument P now s document w)) = calls w @ [CPost d ?posted]"
    by (rule createDocument_calls [OF assms])
  have absent: "\<not> truthy (getprop document ''createdAt'') \<longrightarrow>
                  ?posted ''createdAt'' = Some (JStr now)"
    by (simp add: js_or_def)
  have given: "truthy (getprop document ''createdAt'') \<longrightarrow>
                 ?posted ''createdAt'' = document ''createdAt''"
    by (auto simp: js_or_def getprop_def split: option.splits)
  have rest: "\<forall>k. k \<noteq> ''createdAt'' \<longrightarrow> ?posted k = document k"
    by simp
  have resp: "\<forall>response. p_post P (calls w) d ?posted = Inr response \<longrightarrow>
                fst (createDocument P now s document w)
                  = Inr \<lparr>ok = True, id_resp = id_resp response, rev_resp = rev_resp response\<rparr>"
    using assms by (simp add: createDocument_def store_calls)
  from trace absent given rest resp show ?thesis
    by (intro exI [of _ ?posted]) blast
qed

theorem createDocument_defaults_createdAt_witness:
  "map (written_field ''createdAt'')
     (calls (snd (createDocument sample_store sample_now connected
                    fields_without_createdAt fresh_world)))
     = [Some (JStr sample_now)]
   \<and> map (written_field ''createdAt'')
       (calls (snd (createDocument sample_store sample_now connected
                      fields_with_createdAt fresh_world)))
     = [Some (JStr ''2020-02-02T00:00:00.000Z'')]
   \<and> map (written_field ''title'')
       (calls (snd (createDocument sample_store sample_now connected
                      fields_without_createdAt fresh_world)))
     = [Some (JStr ''A'')]
   \<and> fst (createDocument sample_store sample_now connected fields_without_createdAt fresh_world)
     = Inr \<lparr>ok = True, id_resp = ''doc2'', rev_resp = ''1-b''\<rparr>"
proof -
  have f: "\<not> truthy (getprop fields_without_createdAt ''createdAt'')"
    by (simp add: fields_without_createdAt_def getprop_def)
  have t: "truthy (getprop fields_with_createdAt ''createdAt'')"
    by (simp add: fields_with_createdAt_def getprop_def)
  have p: "p_post sample_store (calls fresh_world) (Database sample_url) posted
             = Inr \<lparr>ok = True, id_resp = ''doc2'', rev_resp = ''1-b''\<rparr>" for posted
    by (simp add: sample_store_def)
  from createDocument_defaults_createdAt
         [OF connected_db, of sample_store sample_now fields_without_createdAt fresh_world] f p
  have 1: "map (written_field ''createdAt'')
             (calls (snd (createDocument sample_store sample_now connected
                            fields_without_createdAt fresh_world)))
             = [Some (JStr sample_now)]
         \<and> map (written_field ''title'')
             (calls (snd (createDocument sample_store sample_now connected
                            fields_without_createdAt fresh_world)))
             = [Some (JStr ''A'')]
         \<and> fst (createDocument sample_store sample_now connected fields_without_createdAt
                  fresh_world)
             = Inr \<lparr>ok = True, id_resp = ''doc2'', rev_resp = ''1-b''\<rparr>"
    by (auto simp: fresh_world_def getprop_def fields_without_createdAt_def)
  from createDocument_defaults_createdAt
         [OF connected_db, of sample_store sample_now fields_with_createdAt fresh_world] t
  have 2: "map (written_field ''createdAt'')
             (calls (snd (createDocument sample_store sample_now connected
                            fields_with_createdAt fresh_world)))
             = [Some (JStr ''2020-02-02T00:00:00.000Z'')]"
    by (auto simp: fresh_world_def getprop_def fields_with_createdAt_def)
  from 1 2 show ?thesis by simp
qed


section \<open>The presentation driver\<close>

subsection \<open>Validation in addDocument\<close>

text \<open>
  Claim C7: when the title or the content of the new document is empty, \<open>addDocument\<close>
  leaves the world as it was (no store call), sets the status to the error
  \<open>Title and content are required\<close>, and leaves the input fields, the document list and the
  loading flag unchanged.
\<close>

theorem addDocument_validation_failure:
  assumes "title (newDocument c) = [] \<or> content (newDocument c) = []"
  shows "snd (addDocument P now now' c w) = w
       \<and> status (fst (addDocument P now now' c w))
           = \<lparr>message = ''Title and content are required'', type = Error\<rparr>
       \<and> newDocument (fst (addDocument P now now' c w)) = newDocument c
       \<and> documents (fst (addDocument P now now' c w)) = documents c
       \<and> isLoading (fst (addDocument P now now' c w)) = isLoading c"
  using assms by (auto simp: addDocument_def updateStatus_def)

theorem addDocument_validation_failure_witness:
  "snd (addDocument sample_store sample_now sample_now empty_title_form fresh_world) = fresh_world
   \<and> status (fst (addDocument sample_store sample_now sample_now empty_title_form fresh_world))
       = \<lparr>message = ''Title and content are required'', type = Error\<rparr>
   \<and> newDocument (fst (addDocument sample_store sample_now sample_now empty_title_form
                         fresh_world))
       = \<lparr>title = [], content = ''B''\<rparr>
   \<and> documents (fst (addDocument sample_store sample_now sample_now empty_title_form fresh_world))
       = [JObj sample_doc]"
proof -
  have e: "title (newDocument empty_title_form) = [] \<or> content (newDocument empty_title_form) = []"
    by (simp add: empty_title_form_def)
  show ?thesis
    using addDocument_validation_failure
            [OF e, of sample_store sample_now sample_now fresh_world]
    by (simp add: empty_title_form_def loaded_manager_def)
qed

subsection \<open>The loading flag\<close>

text \<open>
  The flag is raised only after the service instance was found, and the instance, once
  created, is never dropped: a component without an instance is not loading. This holds
  for the initial data and is kept by every method.
\<close>

lemma loading_invariant_initial:
  "databaseService (data url) = None \<longrightarrow> \<not> isLoading (data url)"
  by (simp add: data_def)

lemma mounted_isLoading: "\<not> isLoading (fst (mounted P c w))"
proof -
  obtain r svc' w1 where i: "initialize P (createDatabaseService (dbUrl c)) w = (r, svc', w1)"
    by (cases "initialize P (createDatabaseService (dbUrl c)) w") auto
  have "fst (initialize P (createDatabaseService (dbUrl c)) w) = Inr ()"
    by (rule initialize_never_rejects)
  with i have r: "r = Inr ()" by simp
  have "databaseService
          (updateStatus ''Connected to database'' Success (c\<lparr>databaseService := Some svc'\<rparr>))
          = Some svc'"
    by (simp add: updateStatus_def)
  then have "\<not> isLoading (fst (fetchDocuments P
               (updateStatus ''Connected to database'' Success
                  (c\<lparr>databaseService := Some svc'\<rparr>)) w1))"
    by (rule fetchDocuments_isLoading)
  with i r show ?thesis
    by (simp add: mounted_def initializeDatabase_def Let_def)
qed

lemma loading_invariant_preserved:
  assumes "databaseService c = None \<longrightarrow> \<not> isLoading c"
  shows "databaseService (fst (fetchDocuments P c w)) = None \<longrightarrow>
           \<not> isLoading (fst (fetchDocuments P c w))"
    and "databaseService (fst (addDocument P now now' c w)) = None \<longrightarrow>
           \<not> isLoading (fst (addDocument P now now' c w))"
    and "databaseService (fst (deleteDocument_component P id' c w)) = None \<longrightarrow>
           \<not> isLoading (fst (deleteDocument_component P id' c w))"
    and "databaseService (fst (mounted P c w)) = None \<longrightarrow> \<not> isLoading (fst (mounted P c w))"
    and "databaseService (fst (snd (unmounted P c w))) = None \<longrightarrow>
           \<not> isLoading (fst (snd (unmounted P c w)))"
proof -
  show "databaseService (fst (fetchDocuments P c w)) = None \<longrightarrow>
          \<not> isLoading (fst (fetchDocuments P c w))"
    using assms
    by (cases "databaseService c") (simp_all add: fetchDocuments_null fetchDocuments_isLoading)
  show "databaseService (fst (deleteDocument_component P id' c w)) = None \<longrightarrow>
          \<not> isLoading (fst (deleteDocument_component P id' c w))"
    using assms
    by (cases "databaseService c")
       (simp_all add: deleteDocument_component_isLoading, simp add: deleteDocument_component_def)
  show "databaseService (fst (addDocument P now now' c w)) = None \<longrightarrow>
          \<not> isLoading (fst (addDocument P now now' c w))"
  proof (cases "title (newDocument c) = [] \<or> content (newDocument c) = []")
    case True
    with assms show ?thesis
      by (auto simp: addDocument_def updateStatus_def)
  next
    case False
    with assms show ?thesis
      by (cases "databaseService c") (simp_all add: addDocument_isLoading, simp add: addDocument_def)
  qed
  show "databaseService (fst (mounted P c w)) = None \<longrightarrow> \<not> isLoading (fst (mounted P c w))"
    by (simp add: mounted_isLoading)
  show "databaseService (fst (snd (unmounted P c w))) = None \<longrightarrow>
          \<not> isLoading (fst (snd (unmounted P c w)))"
    using assms
    by (cases "databaseService c") (simp_all add: unmounted_def split: prod.split)
qed

text \<open>
  Claim C8: in every component state that is not loading without a service instance (every
  state the component can reach), \<open>fetchDocuments\<close>, \<open>addDocument\<close> past its validation and
  \<open>deleteDocument\<close> end with \<open>isLoading\<close> false, whatever the store answers.
\<close>

theorem actions_end_with_isLoading_false:
  assumes "databaseService c = None \<longrightarrow> \<not> isLoading c"
  shows "\<not> isLoading (fst (fetchDocuments P c w))
       \<and> (title (newDocument c) \<noteq> [] \<and> content (newDocument c) \<noteq> [] \<longrightarrow>
            \<not> isLoading (fst (addDocument P now now' c w)))
       \<and> \<not> isLoading (fst (deleteDocument_component P id' c w))"
proof (cases "databaseService c")
  case None
  with assms have "\<not> isLoading c" by simp
  with None show ?thesis
    by (simp add: fetchDocuments_def addDocument_def deleteDocument_component_def)
next
  case (Some svc)
  then show ?thesis
    by (simp add: fetchDocuments_isLoading addDocument_isLoading
          deleteDocument_component_isLoading)
qed

theorem actions_end_with_isLoading_false_witness:
  "\<not> isLoading (fst (fetchDocuments unreachable_store loading_manager fresh_world))
   \<and> \<not> isLoading (fst (fetchDocuments sample_store loading_manager fresh_world))
   \<and> \<not> isLoading (fst (addDocument unreachable_store sample_now sample_now loading_manager
                          fresh_world))
   \<and> \<not> isLoading (fst (addDocument sample_store sample_now sample_now loading_manager
                          fresh_world))
   \<and> \<not> isLoading (fst (deleteDocument_component unreachable_store ''doc1'' loading_manager
                          fresh_world))
   \<and> \<not> isLoading (fst (deleteDocument_component sample_store ''doc1'' loading_manager
                          fresh_world))
   \<and> \<not> isLoading (fst (fetchDocuments sample_store filled_form fresh_world))"
proof -
  have j: "databaseService filled_form = None \<longrightarrow> \<not> isLoading filled_form"
    by (simp add: filled_form_def data_def)
  have i: "databaseService loading_manager = None \<longrightarrow> \<not> isLoading loading_manager"
    by (simp add: loading_manager_def loaded_manager_def)
  have n: "title (newDocument loading_manager) \<noteq> [] \<and> content (newDocument loading_manager) \<noteq> []"
    by (simp add: loading_manager_def loaded_manager_def)
  show ?thesis
    using actions_end_with_isLoading_false
            [OF i, of unreachable_store fresh_world sample_now sample_now "''doc1''"]
          actions_end_with_isLoading_false
            [OF i, of sample_store fresh_world sample_now sample_now "''doc1''"]
          actions_end_with_isLoading_false
            [OF j, of sample_store fresh_world sample_now sample_now "''doc1''"]
          n
    by blast
qed

subsection \<open>A refresh that fails\<close>

text \<open>
  Claim C9: when the component has a service instance and its \<open>getAllDocuments\<close> rejects,
  \<open>fetchDocuments\<close> leaves the document list as it was and sets the status to an error
  whose message is the rejection's message (\<open>Failed to fetch documents\<close>, or
  \<open>Database not initialized\<close> when the instance has no handle).
\<close>

theorem failed_refresh_keeps_documents:
  assumes "databaseService c = Some svc" and "fst (getAllDocuments P svc w) = Inl err"
  shows "documents (fst (fetchDocuments P c w)) = documents c
       \<and> status (fst (fetchDocuments P c w))
           = \<lparr>message = DatabaseError.message err, type = Error\<rparr>
       \<and> DatabaseError.message err \<in> {''Failed to fetch documents'', ''Database not initialized''}"
proof -
  from assms(2) obtain w1 where g: "getAllDocuments P svc w = (Inl err, w1)"
    by (cases "getAllDocuments P svc w") simp
  have "documents (fst (fetchDocuments P c w)) = documents c
      \<and> status (fst (fetchDocuments P c w))
          = \<lparr>message = DatabaseError.message err, type = Error\<rparr>"
    using assms(1) g by (simp add: fetchDocuments_def updateStatus_def)
  moreover from g
  have "DatabaseError.message err \<in> {''Failed to fetch documents'', ''Database not initialized''}"
    by (auto simp: getAllDocuments_def throw_def handleError_def store_calls
          split: option.splits sum.splits)
  ultimately show ?thesis by simp
qed

theorem failed_refresh_keeps_documents_witness:
  "documents (fst (fetchDocuments unreachable_store loaded_manager fresh_world)) = [JObj sample_doc]
   \<and> status (fst (fetchDocuments unreachable_store loaded_manager fresh_world))
       = \<lparr>message = ''Failed to fetch documents'', type = Error\<rparr>"
proof -
  have s: "databaseService loaded_manager = Some connected"
    by (simp add: loaded_manager_def)
  have g: "fst (getAllDocuments unreachable_store connected fresh_world)
             = Inl \<lparr>DatabaseError.status = JNum 500,
                    DatabaseError.message = ''Failed to fetch documents'',
                    error = fetch_failed\<rparr>"
    by (simp add: getAllDocuments_def connected_def unreachable_store_def store_calls throw_def
          handleError_def fetch_failed_def js_or_def getprop_def)
  show ?thesis
    using failed_refresh_keeps_documents [OF s g]
    by (simp add: loaded_manager_def)
qed

subsection \<open>Actions before the service instance exists\<close>

text \<open>
  Claim C10: while the component has no service instance, \<open>fetchDocuments\<close>,
  \<open>deleteDocument\<close> and \<open>addDocument\<close> with a non-empty title and content return with the
  component's state (status, document list, loading flag and all) and the world unchanged.
\<close>

theorem null_service_actions_return_silently:
  assumes "databaseService c = None"
  shows "fetchDocuments P c w = (c, w)
       \<and> deleteDocument_component P id' c w = (c, w)
       \<and> (title (newDocument c) \<noteq> [] \<and> content (newDocument c) \<noteq> [] \<longrightarrow>
            addDocument P now now' c w = (c, w))"
  using assms by (simp add: fetchDocuments_def deleteDocument_component_def addDocument_def)

theorem null_service_actions_return_silently_witness:
  "fetchDocuments sample_store filled_form fresh_world = (filled_form, fresh_world)
   \<and> deleteDocument_component sample_store ''doc1'' filled_form fresh_world
       = (filled_form, fresh_world)
   \<and> addDocument sample_store sample_now sample_now filled_form fresh_world
       = (filled_form, fresh_world)"
proof -
  have n: "databaseService filled_form = None"
    by (simp add: filled_form_def data_def)
  have t: "title (newDocument filled_form) \<noteq> [] \<and> content (newDocument filled_form) \<noteq> []"
    by (simp add: filled_form_def)
  show ?thesis
    using null_service_actions_return_silently
            [OF n, of sample_store fresh_world "''doc1''" sample_now sample_now] t
    by simp
qed

end
